theory Spec2Isabelle
  imports Complex_Main "HOL-Library.Multiset"
begin

section \<open>SmartPrint: reordering 4-up invoice pages into cut-friendly order\<close>

text \<open>
  A shallow embedding of the computational core of \<^verbatim>\<open>src/reorder_gui.py\<close>:
  \<^verbatim>\<open>slice_page_into_quarters\<close>, \<^verbatim>\<open>reorder_stride\<close>, \<^verbatim>\<open>rebuild_pages\<close> and
  \<^verbatim>\<open>process_pdf\<close>. The Qt classes of the file only call \<^verbatim>\<open>process_pdf\<close> and are
  not modelled.
\<close>

subsection \<open>Errors and list indexing\<close>

text \<open>
  The exceptions the modelled functions can raise. \<open>ValueError\<close> carries the message
  of the \<^verbatim>\<open>raise ValueError("...")\<close> statement, \<open>IndexError\<close> is what Python raises on
  \<^verbatim>\<open>xs[k]\<close> with \<open>k\<close> out of range, \<open>OSError\<close> is a failing \<^verbatim>\<open>open(...)\<close>,
  \<open>AttributeError\<close> is the read of an attribute that an object does not have,
  \<open>ZeroDivisionError\<close> is a float division by zero and \<open>PdfStreamError\<close> is the library's
  error for a file that is not a PDF. A result is \<open>error + 'a\<close>, with \<open>Inl\<close> for the
  raised exception.
\<close>

datatype error =
  ValueError string | IndexError | OSError | AttributeError | ZeroDivisionError | PdfStreamError

definition getitem :: "'a list \<Rightarrow> nat \<Rightarrow> error + 'a" where
  "getitem xs k = (if k < length xs then Inr (xs ! k) else Inl IndexError)"

subsection \<open>The stride reorderer\<close>

text \<open>
  \<^verbatim>\<open>
  def reorder_stride(parts: List) -> Tuple[List, int]:
      total_parts = len(parts)
      if total_parts % 4 != 0:
          raise ValueError("Total invoices must be divisible by 4.")
      num_pages = total_parts // 4
      reordered = []
      for i in range(num_pages):
          for j in range(4):
              reordered.append(parts[i + j * num_pages])
      return reordered, num_pages
  \<close>
  The two loops are recursions over the values of \<^verbatim>\<open>range(...)\<close> that thread the list
  \<open>reordered\<close>; the subscript \<^verbatim>\<open>parts[...]\<close> is \<open>getitem\<close>, so an index out of range
  would end the loops with \<open>IndexError\<close>. All indices here are non-negative.
\<close>

fun stride_inner :: "'a list \<Rightarrow> nat \<Rightarrow> nat \<Rightarrow> nat list \<Rightarrow> 'a list \<Rightarrow> error + 'a list" where
  "stride_inner parts num_pages i [] reordered = Inr reordered"
| "stride_inner parts num_pages i (j # js) reordered =
     (case getitem parts (i + j * num_pages) of
        Inl e \<Rightarrow> Inl e
      | Inr x \<Rightarrow> stride_inner parts num_pages i js (reordered @ [x]))"

fun stride_outer :: "'a list \<Rightarrow> nat \<Rightarrow> nat list \<Rightarrow> 'a list \<Rightarrow> error + 'a list" where
  "stride_outer parts num_pages [] reordered = Inr reordered"
| "stride_outer parts num_pages (i # is) reordered =
     (case stride_inner parts num_pages i [0..<4] reordered of
        Inl e \<Rightarrow> Inl e
      | Inr reordered' \<Rightarrow> stride_outer parts num_pages is reordered')"

definition reorder_stride :: "'a list \<Rightarrow> error + ('a list \<times> nat)" where
  "reorder_stride parts =
     (let total_parts = length parts in
      if total_parts mod 4 \<noteq> 0
      then Inl (ValueError ''Total invoices must be divisible by 4.'')
      else
        let num_pages = total_parts div 4 in
        (case stride_outer parts num_pages [0..<num_pages] [] of
           Inl e \<Rightarrow> Inl e
         | Inr reordered \<Rightarrow> Inr (reordered, num_pages)))"

subsection \<open>Python floats\<close>

text \<open>
  The geometry is computed on Python \<^verbatim>\<open>float\<close>s (\<^verbatim>\<open>float(...)\<close>, \<^verbatim>\<open>h / 4.0\<close>), that is on
  IEEE 754 binary64 numbers: a finite float is the rational number it denotes, and
  there are the two infinities and not-a-number. (The two zeros are not told apart.)
\<close>

datatype pyfloat = Finite rat | PInf | NInf | NaN

text \<open>The number of binary digits of a positive integer, as Python's \<^verbatim>\<open>int.bit_length\<close>.\<close>

function bit_length :: "int \<Rightarrow> int" where
  "bit_length n = (if n \<le> 0 then 0 else 1 + bit_length (n div 2))"
  by pat_completeness auto
termination
  by (relation "measure nat") auto

declare bit_length.simps [simp del]

definition pow2 :: "int \<Rightarrow> rat" where
  "pow2 e = (if 0 \<le> e then 2 ^ nat e else 1 / 2 ^ nat (- e))"

text \<open>\<open>ilog2 q\<close> is \<open>\<lfloor>log\<^sub>2 q\<rfloor>\<close> for a positive rational \<open>q\<close>.\<close>

definition ilog2 :: "rat \<Rightarrow> int" where
  "ilog2 q = (if 1 \<le> q then bit_length \<lfloor>q\<rfloor> - 1
              else - bit_length (\<lceil>1 / q\<rceil> - 1))"

definition round_half_even :: "rat \<Rightarrow> int" where
  "round_half_even q =
     (let f = \<lfloor>q\<rfloor>; r = q - of_int f in
      if r < 1 / 2 then f
      else if 1 / 2 < r then f + 1
      else if even f then f else f + 1)"

text \<open>
  Rounding to 53 significant bits, to the nearest, ties to the even significand, with
  the exponent bounded below only: the unit in the last place of \<open>q\<close> is
  \<open>2 ^ (\<lfloor>log\<^sub>2 |q|\<rfloor> - 52)\<close>, and \<open>2 ^ (-1074)\<close> in the subnormal range.
\<close>

definition round_binary64 :: "rat \<Rightarrow> rat" where
  "round_binary64 q =
     (if q = 0 then 0
      else let e = max (ilog2 \<bar>q\<bar> - 52) (- 1074)
           in of_int (round_half_even (q / pow2 e)) * pow2 e)"

text \<open>The largest finite float, \<open>(2 ^ 53 - 1) * 2 ^ 971\<close>.\<close>

definition max_float :: rat where
  "max_float = (2 ^ 53 - 1) * 2 ^ 971"

text \<open>
  The float an exact result is delivered as: the rounded value, or an infinity when the
  rounded value is beyond the largest finite float.
\<close>

definition fl :: "rat \<Rightarrow> pyfloat" where
  "fl q = (let r = round_binary64 q in
           if max_float < r then PInf
           else if r < - max_float then NInf
           else Finite r)"

text \<open>
  Python's \<^verbatim>\<open>a - b\<close>, \<^verbatim>\<open>a * b\<close> and \<^verbatim>\<open>a / b\<close> on floats. Subtraction and multiplication
  raise nothing; division raises \<^verbatim>\<open>ZeroDivisionError\<close> on a zero divisor.
\<close>

fun fsub :: "pyfloat \<Rightarrow> pyfloat \<Rightarrow> pyfloat" where
  "fsub NaN b = NaN"
| "fsub a NaN = NaN"
| "fsub (Finite x) (Finite y) = fl (x - y)"
| "fsub (Finite x) PInf = NInf"
| "fsub (Finite x) NInf = PInf"
| "fsub PInf PInf = NaN"
| "fsub PInf b = PInf"
| "fsub NInf NInf = NaN"
| "fsub NInf b = NInf"

fun fmul :: "pyfloat \<Rightarrow> pyfloat \<Rightarrow> pyfloat" where
  "fmul NaN b = NaN"
| "fmul a NaN = NaN"
| "fmul (Finite x) (Finite y) = fl (x * y)"
| "fmul (Finite x) PInf = (if 0 < x then PInf else if x < 0 then NInf else NaN)"
| "fmul (Finite x) NInf = (if 0 < x then NInf else if x < 0 then PInf else NaN)"
| "fmul PInf (Finite y) = (if 0 < y then PInf else if y < 0 then NInf else NaN)"
| "fmul NInf (Finite y) = (if 0 < y then NInf else if y < 0 then PInf else NaN)"
| "fmul PInf PInf = PInf"
| "fmul PInf NInf = NInf"
| "fmul NInf PInf = NInf"
| "fmul NInf NInf = PInf"

fun fdiv :: "pyfloat \<Rightarrow> pyfloat \<Rightarrow> error + pyfloat" where
  "fdiv a (Finite y) =
     (if y = 0 then Inl ZeroDivisionError
      else Inr (case a of
                  Finite x \<Rightarrow> fl (x / y)
                | PInf \<Rightarrow> (if 0 < y then PInf else NInf)
                | NInf \<Rightarrow> (if 0 < y then NInf else PInf)
                | NaN \<Rightarrow> NaN))"
| "fdiv a NaN = Inr NaN"
| "fdiv (Finite x) b = Inr (Finite 0)"
| "fdiv a b = Inr NaN"

subsection \<open>Pages\<close>

text \<open>
  A page of the source document, as far as the program looks at it: its content (a
  label that tells pages apart) and its media box, the rectangle given by its lower left
  and upper right corners. The library's \<^verbatim>\<open>mediabox.width\<close> is right minus left and
  \<^verbatim>\<open>mediabox.height\<close> is top minus bottom, on floats.
\<close>

record box =
  lower_left :: "pyfloat \<times> pyfloat"
  upper_right :: "pyfloat \<times> pyfloat"

definition width :: "box \<Rightarrow> pyfloat" where
  "width b = fsub (fst (upper_right b)) (fst (lower_left b))"

definition height :: "box \<Rightarrow> pyfloat" where
  "height b = fsub (snd (upper_right b)) (snd (lower_left b))"

record page =
  content :: string
  mediabox :: box

text \<open>
  The library's page class is a subclass of \<^verbatim>\<open>dict\<close> that does not define \<^verbatim>\<open>copy\<close>, so
  \<^verbatim>\<open>page.copy()\<close> is \<^verbatim>\<open>dict.copy()\<close>: it returns a plain \<^verbatim>\<open>dict\<close> with the entries of the
  page and none of the attributes of a page object. The objects the program handles
  are therefore page objects and plain dictionaries; reading the attribute \<^verbatim>\<open>mediabox\<close>
  of a plain dictionary raises \<^verbatim>\<open>AttributeError\<close>.
\<close>

datatype pyobj = PageObject page | PlainDict page

definition page_copy :: "page \<Rightarrow> pyobj" where
  "page_copy pg = PlainDict pg"

text \<open>
  The assignments \<^verbatim>\<open>part.mediabox.lower_left = v\<close> and \<^verbatim>\<open>part.mediabox.upper_right = v\<close>:
  the attribute \<^verbatim>\<open>part.mediabox\<close> is read first, then the corner of that box is replaced.
\<close>

definition set_lower_left :: "pyobj \<Rightarrow> pyfloat \<times> pyfloat \<Rightarrow> error + pyobj" where
  "set_lower_left part v =
     (case part of
        PageObject pg \<Rightarrow> Inr (PageObject (pg\<lparr>mediabox := (mediabox pg)\<lparr>lower_left := v\<rparr>\<rparr>))
      | PlainDict pg \<Rightarrow> Inl AttributeError)"

definition set_upper_right :: "pyobj \<Rightarrow> pyfloat \<times> pyfloat \<Rightarrow> error + pyobj" where
  "set_upper_right part v =
     (case part of
        PageObject pg \<Rightarrow> Inr (PageObject (pg\<lparr>mediabox := (mediabox pg)\<lparr>upper_right := v\<rparr>\<rparr>))
      | PlainDict pg \<Rightarrow> Inl AttributeError)"

subsection \<open>The page splitter\<close>

text \<open>
  \<^verbatim>\<open>
  def slice_page_into_quarters(page) -> List:
      """Return 4 cropped copies from top to bottom."""
      w = float(page.mediabox.width)
      h = float(page.mediabox.height)
      step = h / 4.0
      parts = []
      for i in range(4):  # 0 = top
          part = page.copy()
          top = h - step * i
          bottom = top - step
          part.mediabox.lower_left = (0, bottom)
          part.mediabox.upper_right = (w, top)
          parts.append(part)
      return parts
  \<close>
  The loop is a recursion over the values of \<^verbatim>\<open>range(4)\<close> that threads the list \<open>parts\<close>
  and stops at the first exception.
\<close>

fun slice_loop :: "page \<Rightarrow> pyfloat \<Rightarrow> pyfloat \<Rightarrow> pyfloat \<Rightarrow> nat list \<Rightarrow> pyobj list \<Rightarrow> error + pyobj list" where
  "slice_loop page w h step [] parts = Inr parts"
| "slice_loop page w h step (i # is) parts =
     (let part = page_copy page;
          top = fsub h (fmul step (Finite (of_nat i)));
          bottom = fsub top step
      in case set_lower_left part (Finite 0, bottom) of
           Inl e \<Rightarrow> Inl e
         | Inr part \<Rightarrow>
             (case set_upper_right part (w, top) of
                Inl e \<Rightarrow> Inl e
              | Inr part \<Rightarrow> slice_loop page w h step is (parts @ [part])))"

definition slice_page_into_quarters :: "page \<Rightarrow> error + pyobj list" where
  "slice_page_into_quarters page =
     (let w = width (mediabox page);
          h = height (mediabox page)
      in case fdiv h (Finite 4) of
           Inl e \<Rightarrow> Inl e
         | Inr step \<Rightarrow> slice_loop page w h step [0..<4] [])"

subsection \<open>The page rebuilder\<close>

text \<open>
  \<^verbatim>\<open>
  def rebuild_pages(parts: List, num_pages: int, template_page) -> PdfWriter:
      w = float(template_page.mediabox.width)
      h = float(template_page.mediabox.height)
      step = h / 4.0
      writer = PdfWriter()
      for i in range(num_pages):
          page = writer.add_blank_page(width=w, height=h)
          for idx, part in enumerate(parts[i * 4 : (i + 1) * 4]):
              y = h - step * (idx + 1)
              page.merge_translated_page(part, 0, y, expand=False)
      return writer
  \<close>
  An output page is a blank page of a given size together with the pages merged onto
  it, each with the translation \<open>(tx, ty)\<close> it was merged under, in the order of the
  calls; what the library draws from a merge is not modelled. Merging needs the
  attributes of a page object, so a plain dictionary makes it raise \<^verbatim>\<open>AttributeError\<close>.
  The writer is the list of its pages. The page that \<^verbatim>\<open>add_blank_page\<close> returns is the one
  the writer holds; the model appends it to the writer once the inner loop has merged
  its sub-regions. A Python slice \<^verbatim>\<open>xs[a:b]\<close> with \<open>0 \<le> a \<le> b\<close> never raises: it is cut short
  at the end of the list.
\<close>

record out_page =
  page_width :: pyfloat
  page_height :: pyfloat
  merged :: "(page \<times> pyfloat \<times> pyfloat) list"

definition slice :: "'a list \<Rightarrow> nat \<Rightarrow> nat \<Rightarrow> 'a list" where
  "slice xs a b = drop a (take b xs)"

definition add_blank_page :: "pyfloat \<Rightarrow> pyfloat \<Rightarrow> out_page" where
  "add_blank_page w h = \<lparr>page_width = w, page_height = h, merged = []\<rparr>"

definition merge_translated_page :: "out_page \<Rightarrow> pyobj \<Rightarrow> pyfloat \<Rightarrow> pyfloat \<Rightarrow> error + out_page" where
  "merge_translated_page pg part tx ty =
     (case part of
        PageObject p \<Rightarrow> Inr (pg\<lparr>merged := merged pg @ [(p, tx, ty)]\<rparr>)
      | PlainDict p \<Rightarrow> Inl AttributeError)"

fun merge_loop :: "pyfloat \<Rightarrow> pyfloat \<Rightarrow> (nat \<times> pyobj) list \<Rightarrow> out_page \<Rightarrow> error + out_page" where
  "merge_loop h step [] pg = Inr pg"
| "merge_loop h step ((idx, part) # rest) pg =
     (let y = fsub h (fmul step (Finite (of_nat (idx + 1))))
      in case merge_translated_page pg part (Finite 0) y of
           Inl e \<Rightarrow> Inl e
         | Inr pg \<Rightarrow> merge_loop h step rest pg)"

fun rebuild_loop :: "pyobj list \<Rightarrow> pyfloat \<Rightarrow> pyfloat \<Rightarrow> pyfloat \<Rightarrow> nat list \<Rightarrow> out_page list \<Rightarrow> error + out_page list" where
  "rebuild_loop parts w h step [] writer = Inr writer"
| "rebuild_loop parts w h step (i # is) writer =
     (let pg = add_blank_page w h
      in case merge_loop h step (enumerate 0 (slice parts (i * 4) ((i + 1) * 4))) pg of
           Inl e \<Rightarrow> Inl e
         | Inr pg \<Rightarrow> rebuild_loop parts w h step is (writer @ [pg]))"

definition rebuild_pages :: "pyobj list \<Rightarrow> nat \<Rightarrow> page \<Rightarrow> error + out_page list" where
  "rebuild_pages parts num_pages template_page =
     (let w = width (mediabox template_page);
          h = height (mediabox template_page)
      in case fdiv h (Finite 4) of
           Inl e \<Rightarrow> Inl e
         | Inr step \<Rightarrow> rebuild_loop parts w h step [0..<num_pages] [])"

subsection \<open>The orchestration\<close>

text \<open>
  \<^verbatim>\<open>
  def process_pdf(src_path: str, dst_path: str) -> int:
      reader = PdfReader(src_path)
      if not reader.pages:
          raise ValueError("Source PDF is empty.")
      parts = []
      for p in reader.pages:
          parts.extend(slice_page_into_quarters(p))
      reordered, num_pages = reorder_stride(parts)
      writer = rebuild_pages(reordered, num_pages, reader.pages[0])
      with open(dst_path, "wb") as f:
          writer.write(f)
      return num_pages
  \<close>
  The files the function touches are the state: \<open>readable\<close> gives the pages that
  \<^verbatim>\<open>PdfReader\<close> finds at a path, and none when \<^verbatim>\<open>PdfReader\<close> raises there, in which case
  \<open>reader_error\<close> is the exception it raises (an \<^verbatim>\<open>OSError\<close> for a missing file, the
  library's \<^verbatim>\<open>PdfStreamError\<close> for a file that is not a PDF); \<open>writable\<close> says whether
  \<^verbatim>\<open>open(path, "wb")\<close> succeeds, and \<open>written\<close> holds the documents that have been
  serialized. The function returns its result together with the new state.
\<close>

record world =
  readable :: "string \<rightharpoonup> page list"
  reader_error :: "string \<Rightarrow> error"
  writable :: "string \<Rightarrow> bool"
  written :: "string \<rightharpoonup> out_page list"

fun split_all :: "page list \<Rightarrow> pyobj list \<Rightarrow> error + pyobj list" where
  "split_all [] parts = Inr parts"
| "split_all (p # ps) parts =
     (case slice_page_into_quarters p of
        Inl e \<Rightarrow> Inl e
      | Inr quarters \<Rightarrow> split_all ps (parts @ quarters))"

definition process_pdf :: "string \<Rightarrow> string \<Rightarrow> world \<Rightarrow> (error + nat) \<times> world" where
  "process_pdf src_path dst_path w =
     (case readable w src_path of
        None \<Rightarrow> (Inl (reader_error w src_path), w)
      | Some pages \<Rightarrow>
          if pages = [] then (Inl (ValueError ''Source PDF is empty.''), w)
          else
            (case split_all pages [] of
               Inl e \<Rightarrow> (Inl e, w)
             | Inr parts \<Rightarrow>
                 (case reorder_stride parts of
                    Inl e \<Rightarrow> (Inl e, w)
                  | Inr (reordered, num_pages) \<Rightarrow>
                      (case getitem pages 0 of
                         Inl e \<Rightarrow> (Inl e, w)
                       | Inr template_page \<Rightarrow>
                           (case rebuild_pages reordered num_pages template_page of
                              Inl e \<Rightarrow> (Inl e, w)
                            | Inr writer \<Rightarrow>
                                if writable w dst_path
                                then (Inr num_pages, w\<lparr>written := (written w)(dst_path \<mapsto> writer)\<rparr>)
                                else (Inl OSError, w))))))"

subsection \<open>Auxiliary notions for the statements\<close>

text \<open>
  The four elements appended for output page \<open>i\<close>, used to state what the loops compute.
\<close>

definition stride_group :: "'a list \<Rightarrow> nat \<Rightarrow> nat \<Rightarrow> 'a list" where
  "stride_group parts n i = map (\<lambda>j. parts ! (i + j * n)) [0..<4]"





subsection \<open>Example inputs\<close>

text \<open>
  An A4 page of 595 by 842 points; an A4 page whose height is the float that Python
  reads from \<^verbatim>\<open>841.89\<close>, which is \<open>7405342754466693 / 2 ^ 43\<close>; a page whose media box has
  width and height 0; pages told apart by a label; the eight sub-regions of two pages
  in reordered order; and a state with a two-page document, an empty document and one
  writable destination.
\<close>

definition a4_842 :: page where
  "a4_842 = \<lparr>content = ''P'',
      mediabox = \<lparr>lower_left = (Finite 0, Finite 0), upper_right = (Finite 595, Finite 842)\<rparr>\<rparr>"



definition labelled :: "string \<Rightarrow> page" where
  "labelled c = \<lparr>content = c,
      mediabox = \<lparr>lower_left = (Finite 0, Finite 0), upper_right = (Finite 595, Finite 842)\<rparr>\<rparr>"


definition demo_world :: world where
  "demo_world =
     \<lparr>readable = [''in.pdf'' \<mapsto> [labelled ''A'', labelled ''B''], ''empty.pdf'' \<mapsto> []],
      reader_error = (\<lambda>path. OSError),
      writable = (\<lambda>path. path = ''out.pdf''),
      written = Map.empty\<rparr>"

section \<open>Properties of the stride reorderer\<close>

subsection \<open>What the loops compute\<close>

lemma stride_inner_ok:
  "\<forall>j \<in> set js. i + j * n < length parts \<Longrightarrow>
   stride_inner parts n i js acc = Inr (acc @ map (\<lambda>j. parts ! (i + j * n)) js)"
  by (induction js arbitrary: acc) (simp_all add: getitem_def)

lemma stride_outer_ok:
  "length parts = 4 * n \<Longrightarrow> \<forall>i \<in> set is. i < n \<Longrightarrow>
   stride_outer parts n is acc = Inr (acc @ concat (map (stride_group parts n) is))"
proof (induction "is" arbitrary: acc)
  case Nil
  then show ?case by simp
next
  case (Cons i "is")
  have "i + j * n < length parts" if "j < 4" for j
  proof -
    have "j * n \<le> 3 * n" using that by (intro mult_le_mono1) simp
    moreover have "i < n" using Cons.prems(2) by simp
    ultimately show ?thesis using Cons.prems(1) by linarith
  qed
  then have "\<forall>j \<in> set [0..<4]. i + j * n < length parts"
    by simp
  then have "stride_inner parts n i [0..<4] acc = Inr (acc @ stride_group parts n i)"
    unfolding stride_group_def by (rule stride_inner_ok)
  then show ?case using Cons by simp
qed

lemma reorder_stride_eq:
  assumes "length parts mod 4 = 0"
  shows "reorder_stride parts =
     Inr (concat (map (stride_group parts (length parts div 4)) [0..<length parts div 4]),
          length parts div 4)"
proof -
  have "length parts = 4 * (length parts div 4)" using assms by presburger
  then have "stride_outer parts (length parts div 4) [0..<length parts div 4] [] =
      Inr ([] @ concat (map (stride_group parts (length parts div 4)) [0..<length parts div 4]))"
    by (intro stride_outer_ok) auto
  then show ?thesis using assms by (simp add: reorder_stride_def Let_def)
qed

lemma length_concat_uniform:
  "\<forall>i<n. length (f i) = m \<Longrightarrow> length (concat (map f [0..<n])) = n * m"
  by (induction n) simp_all

lemma nth_concat_uniform:
  "\<forall>i<n. length (f i) = m \<Longrightarrow> i < n \<Longrightarrow> j < m \<Longrightarrow>
   concat (map f [0..<n]) ! (i * m + j) = f i ! j"
proof (induction n)
  case 0
  then show ?case by simp
next
  case (Suc n)
  have len: "length (concat (map f [0..<n])) = n * m"
    using Suc.prems(1) by (intro length_concat_uniform) simp
  show ?case
  proof (cases "i < n")
    case True
    then have "Suc i * m \<le> n * m" by (intro mult_le_mono1) simp
    then have "i * m + j < n * m"
      using Suc.prems(3) by simp
    then show ?thesis using Suc True len by (simp add: nth_append)
  next
    case False
    then have "i = n" using Suc.prems(2) by simp
    then show ?thesis using len by (simp add: nth_append)
  qed
qed

lemma upt_0_4: "[0..<4] = [0, 1, 2, 3::nat]"
  by (simp add: upt_conv_Cons)

lemma stride_group_length: "length (stride_group parts n i) = 4"
  by (simp add: stride_group_def)

lemma stride_group_nth: "j < 4 \<Longrightarrow> stride_group parts n i ! j = parts ! (i + j * n)"
  by (simp add: stride_group_def)

lemma stride_concat_length:
  "length (concat (map (stride_group parts n) [0..<n])) = n * 4"
  by (intro length_concat_uniform) (simp add: stride_group_length)

lemma stride_concat_nth:
  "i < n \<Longrightarrow> j < 4 \<Longrightarrow>
   concat (map (stride_group parts n) [0..<n]) ! (i * 4 + j) = parts ! (i + j * n)"
  using nth_concat_uniform [of n "stride_group parts n" 4 i j]
  by (simp add: stride_group_length stride_group_nth)

lemma nth_window: "k + n \<le> length xs \<Longrightarrow> map (\<lambda>i. xs ! (i + k)) [0..<n] = take n (drop k xs)"
  by (rule nth_equalityI) (simp_all add: add.commute)

lemma mset_stride_groups:
  "mset (concat (map (stride_group parts n) is)) =
     mset (map (\<lambda>i. parts ! (i + 0 * n)) is) + mset (map (\<lambda>i. parts ! (i + 1 * n)) is) +
     mset (map (\<lambda>i. parts ! (i + 2 * n)) is) + mset (map (\<lambda>i. parts ! (i + 3 * n)) is)"
  by (induction "is") (simp_all add: stride_group_def upt_0_4)

lemma four_windows:
  assumes "length xs = 4 * n"
  shows "xs = take n (drop (0 * n) xs) @ take n (drop (1 * n) xs) @
              take n (drop (2 * n) xs) @ take n (drop (3 * n) xs)"
proof -
  have "take n (drop (3 * n) xs) = drop (3 * n) xs" using assms by simp
  moreover have "take n (drop (2 * n) xs) @ drop (3 * n) xs = drop (2 * n) xs"
    by (metis add.commute drop_drop append_take_drop_id mult_Suc numeral_3_eq_3 numeral_2_eq_2)
  moreover have "take n (drop n xs) @ drop (2 * n) xs = drop n xs"
    by (metis add.commute drop_drop append_take_drop_id mult_2)
  ultimately show ?thesis by simp
qed

lemma mset_stride_concat:
  assumes "length parts = 4 * n"
  shows "mset (concat (map (stride_group parts n) [0..<n])) = mset parts"
proof -
  have w: "map (\<lambda>i. parts ! (i + j * n)) [0..<n] = take n (drop (j * n) parts)" if "j < 4" for j
  proof -
    have "Suc j * n \<le> 4 * n" using that by (intro mult_le_mono1) simp
    then show ?thesis using assms by (intro nth_window) simp
  qed
  have "mset (concat (map (stride_group parts n) [0..<n])) =
      mset (take n (drop (0 * n) parts)) + mset (take n (drop (1 * n) parts)) +
      mset (take n (drop (2 * n) parts)) + mset (take n (drop (3 * n) parts))"
    unfolding mset_stride_groups by (simp only: w [of 0] w [of 1] w [of 2] w [of 3] mset_map)
  also have "\<dots> = mset (take n (drop (0 * n) parts) @ take n (drop (1 * n) parts) @
              take n (drop (2 * n) parts) @ take n (drop (3 * n) parts))"
    by (simp only: mset_append add.assoc)
  also have "\<dots> = mset parts"
    using four_windows [OF assms] by simp
  finally show ?thesis .
qed

subsection \<open>Claims about \<open>reorder_stride\<close>\<close>

text \<open>
  Claim C3. For every \<open>parts\<close> whose length is divisible by 4, with \<open>M = len(parts) / 4\<close>,
  \<open>reorder_stride\<close> returns the pair \<open>(reordered, M)\<close>, \<open>reordered\<close> has the length of
  \<open>parts\<close>, and \<open>reordered[i*4 + j] = parts[i + j*M]\<close> for every \<open>i < M\<close> and \<open>j < 4\<close>:
  the stride runs over the flat positions of the sub-regions, so output page \<open>i\<close> holds
  the sub-regions at flat positions \<open>i\<close>, \<open>i + M\<close>, \<open>i + 2M\<close>, \<open>i + 3M\<close>.
\<close>

theorem reorder_stride_flat_index_law:
  assumes "length parts mod 4 = 0"
  shows "\<exists>reordered. reorder_stride parts = Inr (reordered, length parts div 4) \<and>
           length reordered = length parts \<and>
           (\<forall>i < length parts div 4. \<forall>j < 4.
              reordered ! (i * 4 + j) = parts ! (i + j * (length parts div 4)))"
proof -
  have "length parts div 4 * 4 = length parts" using assms by presburger
  then show ?thesis
    using reorder_stride_eq [OF assms]
    by (simp add: stride_concat_length stride_concat_nth)
qed

text \<open>The law at the two-page input \<open>A0..A3, B0..B3\<close>: position 2 of output page 1 is \<open>B1\<close>.\<close>

theorem reorder_stride_flat_index_law_witness:
  "length [''A0'', ''A1'', ''A2'', ''A3'', ''B0'', ''B1'', ''B2'', ''B3''] mod 4 = (0::nat) \<and>
   (\<exists>reordered.
      reorder_stride [''A0'', ''A1'', ''A2'', ''A3'', ''B0'', ''B1'', ''B2'', ''B3''] = Inr (reordered, 2) \<and>
      length reordered = 8 \<and>
      reordered ! (1 * 4 + 2) = ''B1'')"
proof -
  let ?xs = "[''A0'', ''A1'', ''A2'', ''A3'', ''B0'', ''B1'', ''B2'', ''B3'']"
  have h: "length ?xs mod 4 = 0" by simp
  from reorder_stride_flat_index_law [OF h] obtain r where
    r: "reorder_stride ?xs = Inr (r, length ?xs div 4)" "length r = length ?xs"
    and law: "\<forall>i < length ?xs div 4. \<forall>j < 4. r ! (i * 4 + j) = ?xs ! (i + j * (length ?xs div 4))"
    by blast
  from law [rule_format, of 1 2] have "r ! (1 * 4 + 2) = ''B1''" by simp
  with r h show ?thesis by simp
qed

text \<open>
  Claim C4. A list whose length is not divisible by 4 makes \<open>reorder_stride\<close> raise the
  \<open>ValueError\<close> of its guard; a list whose length is divisible by 4 raises nothing
  (neither that error nor an \<open>IndexError\<close> from a subscript) and a pair is returned.
\<close>

theorem reorder_stride_divisibility_guard:
  "(length parts mod 4 \<noteq> 0 \<longrightarrow>
      reorder_stride parts = Inl (ValueError ''Total invoices must be divisible by 4.'')) \<and>
   (length parts mod 4 = 0 \<longrightarrow>
      (\<exists>reordered. reorder_stride parts = Inr (reordered, length parts div 4)))"
proof (intro conjI impI)
  assume "length parts mod 4 \<noteq> 0"
  then show "reorder_stride parts = Inl (ValueError ''Total invoices must be divisible by 4.'')"
    by (simp add: reorder_stride_def)
next
  assume "length parts mod 4 = 0"
  then show "\<exists>reordered. reorder_stride parts = Inr (reordered, length parts div 4)"
    by (simp add: reorder_stride_eq)
qed

text \<open>A list of length 6 is rejected, a list of length 4 is accepted.\<close>

theorem reorder_stride_divisibility_guard_witness:
  "length [1, 2, 3, 4, 5, 6 :: int] mod 4 \<noteq> 0 \<and>
   reorder_stride [1, 2, 3, 4, 5, 6 :: int] = Inl (ValueError ''Total invoices must be divisible by 4.'') \<and>
   length [1, 2, 3, 4 :: int] mod 4 = 0 \<and>
   (\<exists>reordered. reorder_stride [1, 2, 3, 4 :: int] = Inr (reordered, 1))"
  using reorder_stride_divisibility_guard [of "[1, 2, 3, 4, 5, 6 :: int]"]
        reorder_stride_divisibility_guard [of "[1, 2, 3, 4 :: int]"]
  by simp

text \<open>
  Claim C8. For \<open>N = 1\<close>, an input of exactly 4 sub-regions, \<open>reorder_stride\<close> returns the
  input list unchanged, together with the page count 1.
\<close>

theorem reorder_stride_single_page_identity:
  assumes "length parts = 4"
  shows "reorder_stride parts = Inr (parts, 1)"
proof -
  have "concat (map (stride_group parts 1) [0..<1]) = parts"
    using assms by (intro nth_equalityI) (auto simp: stride_group_def nth_append)
  then show ?thesis
    using reorder_stride_eq [of parts] assms by simp
qed

text \<open>The four quarters of one page come back in their order.\<close>

theorem reorder_stride_single_page_identity_witness:
  "length [''A0'', ''A1'', ''A2'', ''A3''] = 4 \<and>
   reorder_stride [''A0'', ''A1'', ''A2'', ''A3''] = Inr ([''A0'', ''A1'', ''A2'', ''A3''], 1)"
  using reorder_stride_single_page_identity [of "[''A0'', ''A1'', ''A2'', ''A3'']"]
  by simp

text \<open>
  Claim C2. For every input list whose length is positive and divisible by 4, the list
  returned by \<open>reorder_stride\<close> is a permutation of the input: the same multiset of
  elements (nothing duplicated, nothing dropped) and the same length \<open>4N\<close>, where \<open>N\<close> is
  the returned page count.
\<close>

theorem reorder_stride_permutation:
  assumes "length parts mod 4 = 0" and "0 < length parts"
  shows "\<exists>reordered num_pages. reorder_stride parts = Inr (reordered, num_pages) \<and>
           mset reordered = mset parts \<and>
           length reordered = length parts \<and>
           length parts = 4 * num_pages"
proof -
  have len: "length parts = 4 * (length parts div 4)" using assms(1) by presburger
  show ?thesis
    using reorder_stride_eq [OF assms(1)] mset_stride_concat [OF len] len
    by (simp add: stride_concat_length)
qed

text \<open>The two-page input \<open>A0..A3, B0..B3\<close> is permuted.\<close>

theorem reorder_stride_permutation_witness:
  "length [''A0'', ''A1'', ''A2'', ''A3'', ''B0'', ''B1'', ''B2'', ''B3''] mod 4 = (0::nat) \<and>
   0 < length [''A0'', ''A1'', ''A2'', ''A3'', ''B0'', ''B1'', ''B2'', ''B3''] \<and>
   (\<exists>reordered num_pages.
      reorder_stride [''A0'', ''A1'', ''A2'', ''A3'', ''B0'', ''B1'', ''B2'', ''B3''] = Inr (reordered, num_pages) \<and>
      mset reordered = mset [''A0'', ''A1'', ''A2'', ''A3'', ''B0'', ''B1'', ''B2'', ''B3''] \<and>
      length reordered = 8)"
  using reorder_stride_permutation [of "[''A0'', ''A1'', ''A2'', ''A3'', ''B0'', ''B1'', ''B2'', ''B3'']"]
  by auto

text \<open>
  Claim C1, as the code has it. For a flattened sequence of length \<open>4N\<close> with \<open>N \<ge> 1\<close>,
  \<open>reordered[i*4 + j] = flattened[i + j*N]\<close> for every output page \<open>i < N\<close> and position
  \<open>j < 4\<close>; equivalently pile \<open>j\<close> (position \<open>j\<close> of output pages \<open>0..N-1\<close>, in that order) is
  the block of \<open>N\<close> consecutive sub-regions at flat positions \<open>jN, jN+1, ..., jN+N-1\<close>. This
  is the order the module's docstring announces: output page \<open>i\<close> holds invoices
  \<open>i, i+N, i+2N, i+3N\<close>, and every pile is sequential after the cut.
\<close>

theorem reorder_stride_piles:
  assumes "length flattened = 4 * N" and "1 \<le> N"
  shows "\<exists>reordered. reorder_stride flattened = Inr (reordered, N) \<and>
           (\<forall>i < N. \<forall>j < 4. reordered ! (i * 4 + j) = flattened ! (i + j * N)) \<and>
           (\<forall>j < 4. map (\<lambda>i. reordered ! (i * 4 + j)) [0..<N] = take N (drop (j * N) flattened))"
proof -
  have m: "length flattened mod 4 = 0" and d: "length flattened div 4 = N"
    using assms(1) by simp_all
  let ?r = "concat (map (stride_group flattened N) [0..<N])"
  have r: "reorder_stride flattened = Inr (?r, N)"
    using reorder_stride_eq [OF m] d by simp
  have law: "?r ! (i * 4 + j) = flattened ! (i + j * N)" if "i < N" "j < 4" for i j
    using that by (rule stride_concat_nth)
  have pile: "map (\<lambda>i. ?r ! (i * 4 + j)) [0..<N] = take N (drop (j * N) flattened)" if "j < 4" for j
  proof -
    have "Suc j * N \<le> 4 * N" using that by (intro mult_le_mono1) simp
    then have "map (\<lambda>i. flattened ! (i + j * N)) [0..<N] = take N (drop (j * N) flattened)"
      using assms(1) by (intro nth_window) simp
    moreover have "map (\<lambda>i. ?r ! (i * 4 + j)) [0..<N] = map (\<lambda>i. flattened ! (i + j * N)) [0..<N]"
      using that by (intro map_cong) (simp_all add: law)
    ultimately show ?thesis by simp
  qed
  show ?thesis using r law pile by blast
qed

text \<open>For two pages, output page 1 starts with \<open>A1\<close> and pile 1 is \<open>A2, A3\<close>.\<close>

theorem reorder_stride_piles_witness:
  "length [''A0'', ''A1'', ''A2'', ''A3'', ''B0'', ''B1'', ''B2'', ''B3''] = 4 * 2 \<and> (1::nat) \<le> 2 \<and>
   (\<exists>reordered.
      reorder_stride [''A0'', ''A1'', ''A2'', ''A3'', ''B0'', ''B1'', ''B2'', ''B3''] = Inr (reordered, 2) \<and>
      reordered ! (1 * 4 + 0) = ''A1'' \<and>
      map (\<lambda>i. reordered ! (i * 4 + 1)) [0..<2] = [''A2'', ''A3''])"
proof -
  let ?xs = "[''A0'', ''A1'', ''A2'', ''A3'', ''B0'', ''B1'', ''B2'', ''B3'']"
  have h: "length ?xs = 4 * 2" and n: "(1::nat) \<le> 2" by simp_all
  from reorder_stride_piles [OF h n] obtain r where
    r: "reorder_stride ?xs = Inr (r, 2)"
    and law: "\<forall>i < 2. \<forall>j < 4. r ! (i * 4 + j) = ?xs ! (i + j * 2)"
    and pile: "\<forall>j < 4. map (\<lambda>i. r ! (i * 4 + j)) [0..<2] = take 2 (drop (j * 2) ?xs)"
    by blast
  from law [rule_format, of 1 0] have "r ! (1 * 4 + 0) = ''A1''" by simp
  moreover from pile [rule_format, of 1] have "map (\<lambda>i. r ! (i * 4 + 1)) [0..<2] = [''A2'', ''A3'']"
    by simp
  ultimately show ?thesis using r by simp
qed

text \<open>
  The index law of claim C1 as the specification words it,
  \<open>reordered[i*4 + j] = flattened[(i + j*N)*4 + j]\<close>, fails on the code. For the two pages
  \<open>A0..A3, B0..B3\<close> (\<open>N = 2\<close>) the code returns \<open>A0, A2, B0, B2, A1, A3, B1, B3\<close>; at \<open>i = 1\<close>,
  \<open>j = 0\<close> the law asks for \<open>flattened[4] = B0\<close> at \<open>reordered[4]\<close>, where the code has
  put \<open>flattened[1] = A1\<close>.
\<close>

theorem reorder_stride_page_law_counterexample:
  "reorder_stride [''A0'', ''A1'', ''A2'', ''A3'', ''B0'', ''B1'', ''B2'', ''B3''] =
     Inr ([''A0'', ''A2'', ''B0'', ''B2'', ''A1'', ''A3'', ''B1'', ''B3''], 2) \<and>
   [''A0'', ''A2'', ''B0'', ''B2'', ''A1'', ''A3'', ''B1'', ''B3''] ! (1 * 4 + 0) \<noteq>
   [''A0'', ''A1'', ''A2'', ''A3'', ''B0'', ''B1'', ''B2'', ''B3''] ! ((1 + 0 * 2) * 4 + 0)"
  by (simp add: reorder_stride_def getitem_def upt_conv_Cons)

section \<open>Float operations that do not round\<close>















section \<open>Properties of the page splitter\<close>

text \<open>
  The first round of the loop copies the page into a plain dictionary and then reads
  its attribute \<^verbatim>\<open>mediabox\<close>: the splitter raises \<^verbatim>\<open>AttributeError\<close> on every page.
\<close>

lemma slice_page_into_quarters_raises:
  "slice_page_into_quarters pg = Inl AttributeError"
proof -
  have "slice_loop pg w h step [0..<4] [] = Inl AttributeError" for w h step
    by (simp add: upt_0_4 page_copy_def set_lower_left_def Let_def)
  then show ?thesis
    by (simp add: slice_page_into_quarters_def Let_def)
qed

subsection \<open>Claims about \<open>slice_page_into_quarters\<close>\<close>

text \<open>
  Claim C6 says that the splitter returns 4 sub-region descriptors for every page, as
  the docstring of the function does (\<^verbatim>\<open>"""Return 4 cropped copies from top to bottom."""\<close>).
  The code does not: on the A4 page of 595 by 842 points it raises \<^verbatim>\<open>AttributeError\<close>
  at \<^verbatim>\<open>part.mediabox.lower_left = (0, bottom)\<close>, since \<^verbatim>\<open>part\<close> is a plain dictionary.
\<close>

theorem slice_a4_page_raises:
  "slice_page_into_quarters a4_842 = Inl AttributeError"
  by (rule slice_page_into_quarters_raises)




section \<open>Properties of the page rebuilder\<close>

subsection \<open>What the loops compute\<close>







subsection \<open>Claims about \<open>rebuild_pages\<close>\<close>







section \<open>Properties of the orchestration\<close>

text \<open>
  A document with at least one page makes the splitter raise on its first page, and the
  exception leaves \<open>process_pdf\<close> before anything is written.
\<close>

lemma split_all_raises:
  "pages \<noteq> [] \<Longrightarrow> split_all pages parts = Inl AttributeError"
  by (cases pages) (simp_all add: slice_page_into_quarters_raises)

lemma process_pdf_nonempty:
  assumes "readable w src_path = Some pages" and "pages \<noteq> []"
  shows "process_pdf src_path dst_path w = (Inl AttributeError, w)"
  using assms by (simp add: process_pdf_def split_all_raises)

subsection \<open>Claims about \<open>process_pdf\<close>\<close>

text \<open>
  Claim C5. For a source document with 0 pages \<open>process_pdf\<close> raises the \<open>ValueError\<close> of
  its emptiness guard and leaves the state as it was: nothing is written, and since the
  result is the same for every destination, writable or not, the guard has fired before
  the destination is opened (and before the loop over the pages, which comes after it).
  For a source with at least one page this error is not raised.
\<close>

theorem process_pdf_empty_document:
  "(readable w src_path = Some [] \<longrightarrow>
      process_pdf src_path dst_path w = (Inl (ValueError ''Source PDF is empty.''), w)) \<and>
   (\<forall>pages. readable w src_path = Some pages \<and> pages \<noteq> [] \<longrightarrow>
      fst (process_pdf src_path dst_path w) \<noteq> Inl (ValueError ''Source PDF is empty.''))"
proof (intro conjI impI allI)
  assume "readable w src_path = Some []"
  then show "process_pdf src_path dst_path w = (Inl (ValueError ''Source PDF is empty.''), w)"
    by (simp add: process_pdf_def)
next
  fix pages
  assume "readable w src_path = Some pages \<and> pages \<noteq> []"
  then have "readable w src_path = Some pages" and "pages \<noteq> []" by simp_all
  from process_pdf_nonempty [OF this, of dst_path]
  show "fst (process_pdf src_path dst_path w) \<noteq> Inl (ValueError ''Source PDF is empty.'')"
    by simp
qed

text \<open>The empty document is rejected, the two-page document is not.\<close>

theorem process_pdf_empty_document_witness:
  "readable demo_world ''empty.pdf'' = Some [] \<and>
   process_pdf ''empty.pdf'' ''out.pdf'' demo_world =
     (Inl (ValueError ''Source PDF is empty.''), demo_world) \<and>
   readable demo_world ''in.pdf'' = Some [labelled ''A'', labelled ''B''] \<and>
   [labelled ''A'', labelled ''B''] \<noteq> [] \<and>
   fst (process_pdf ''in.pdf'' ''out.pdf'' demo_world) \<noteq> Inl (ValueError ''Source PDF is empty.'')"
proof -
  have e: "readable demo_world ''empty.pdf'' = Some []"
    and i: "readable demo_world ''in.pdf'' = Some [labelled ''A'', labelled ''B'']"
    by (simp_all add: demo_world_def)
  note t = process_pdf_empty_document [of demo_world]
  from t [of "''empty.pdf''" "''out.pdf''"] e
  have "process_pdf ''empty.pdf'' ''out.pdf'' demo_world =
     (Inl (ValueError ''Source PDF is empty.''), demo_world)" by blast
  moreover from t [of "''in.pdf''" "''out.pdf''"] i
  have "fst (process_pdf ''in.pdf'' ''out.pdf'' demo_world) \<noteq> Inl (ValueError ''Source PDF is empty.'')"
    by blast
  ultimately show ?thesis using e i by simp
qed

text \<open>
  Claim C9 says that for a non-empty source document of \<open>N\<close> pages \<open>process_pdf\<close> returns
  \<open>N\<close> and serializes a document of \<open>N\<close> pages. The code does not: on the two-page
  document, with a destination that can be opened, it raises the \<^verbatim>\<open>AttributeError\<close> of
  the splitter and the state is as it was, so no count is returned and nothing is
  written.
\<close>

theorem process_pdf_two_pages_raises:
  "readable demo_world ''in.pdf'' = Some [labelled ''A'', labelled ''B''] \<and>
   writable demo_world ''out.pdf'' \<and>
   process_pdf ''in.pdf'' ''out.pdf'' demo_world = (Inl AttributeError, demo_world)"
proof -
  have i: "readable demo_world ''in.pdf'' = Some [labelled ''A'', labelled ''B'']"
    and o: "writable demo_world ''out.pdf''"
    by (simp_all add: demo_world_def)
  from process_pdf_nonempty [OF i, of "''out.pdf''"] i o show ?thesis by simp
qed

end
